theory Spec2Isabelle
  imports Main
begin

section \<open>Values, documents and the outside world\<close>

text \<open>
  Text is a list of 8-bit characters: the UTF-8 encoding of the Python string. The
  non-ASCII literals of \<^verbatim>\<open>main.py\<close> are given by their UTF-8 bytes. Python values that travel through the program (the decoded JSON
  body, the query parameters, the dictionaries the operations return) are values of
  \<open>pyval\<close>; a dictionary is an association list read with \<open>map_of\<close>. JSON numbers are
  integers here: the program never computes with them.
\<close>

datatype pyval =
    PNone
  | PBool bool
  | PInt int
  | PStr string
  | PList "pyval list"
  | PDict "(string \<times> pyval) list"

text \<open>
  The tree that \<^verbatim>\<open>BeautifulSoup(html, "html.parser")\<close> builds: a text node or an element
  with its name, its attributes and its children. Comments and the other special string
  kinds of the parser are not part of the model.
\<close>

datatype node =
    NavigableString string
  | Tag string "(string \<times> string) list" "node list"

datatype error =
    HTTPException int string
  | RequestValidationError
  | TransportError
  | JSONDecodeError
  | AttributeError
  | TypeError

record request =
  req_url :: string
  req_headers :: "(string \<times> string) list"
  req_params :: "(string \<times> pyval) list"

text \<open>
  A response of \<^verbatim>\<open>httpx\<close>: \<open>json\<close> is what \<^verbatim>\<open>res.json()\<close> returns, \<open>None\<close> when it raises.
\<close>

record response =
  status_code :: int
  res_text :: string
  json :: "pyval option"

text \<open>
  The module's globals and its collaborators: the two credentials read from the
  environment at start-up (\<open>None\<close> when the variable is unset), the HTTP client
  (\<open>None\<close> when \<^verbatim>\<open>client.get\<close> raises) and the HTML parser.
\<close>

record world =
  NAVER_CLIENT_ID :: "string option"
  NAVER_CLIENT_SECRET :: "string option"
  client_get :: "request \<Rightarrow> response option"
  html_parser :: "string \<Rightarrow> node list"

type_synonym 'a outcome = "(error + 'a) \<times> request list"

section \<open>Constants of the module\<close>

definition NAVER_NEWS_URL :: string where
  "NAVER_NEWS_URL = ''https://openapi.naver.com/v1/search/news.json''"

definition KEY_MISSING :: string where
  \<comment> \<open>\<^verbatim>\<open>"NAVER API key missing (.env ...)"\<close>, the Korean words as UTF-8 bytes\<close>
  "KEY_MISSING = ''NAVER API key missing (.env '' @
     [CHR 0xED, CHR 0x99, CHR 0x95, CHR 0xEC, CHR 0x9D, CHR 0xB8, CHR 0x20,
      CHR 0xED, CHR 0x95, CHR 0x84, CHR 0xEC, CHR 0x9A, CHR 0x94] @ '')''"

definition ARTICLE_REQUEST_FAILED :: string where
  \<comment> \<open>the prefix of the f-string of line 94, ending in a colon and a space\<close>
  "ARTICLE_REQUEST_FAILED =
     [CHR 0xEA, CHR 0xB8, CHR 0xB0, CHR 0xEC, CHR 0x82, CHR 0xAC, CHR 0x20,
      CHR 0xEC, CHR 0x9A, CHR 0x94, CHR 0xEC, CHR 0xB2, CHR 0xAD, CHR 0x20,
      CHR 0xEC, CHR 0x8B, CHR 0xA4, CHR 0xED, CHR 0x8C, CHR 0xA8, CHR 0x3A, CHR 0x20]"

definition NO_CONTENT :: string where
  \<comment> \<open>the message of line 125\<close>
  "NO_CONTENT =
     [CHR 0xEB, CHR 0xB3, CHR 0xB8, CHR 0xEB, CHR 0xAC, CHR 0xB8, CHR 0xEC, CHR 0x9D,
      CHR 0x84, CHR 0x20, CHR 0xEA, CHR 0xB0, CHR 0x80, CHR 0xEC, CHR 0xA0, CHR 0xB8,
      CHR 0xEC, CHR 0x98, CHR 0xA4, CHR 0xEC, CHR 0xA7, CHR 0x80, CHR 0x20, CHR 0xEB,
      CHR 0xAA, CHR 0xBB, CHR 0xED, CHR 0x96, CHR 0x88, CHR 0xEC, CHR 0x8A, CHR 0xB5,
      CHR 0xEB, CHR 0x8B, CHR 0x88, CHR 0xEB, CHR 0x8B, CHR 0xA4, CHR 0x2E]"

definition HOT_KEYWORD :: string where
  \<comment> \<open>the keyword of line 170\<close>
  "HOT_KEYWORD = [CHR 0xEC, CHR 0xA3, CHR 0xBC, CHR 0xEC, CHR 0x8B, CHR 0x9D]"

section \<open>Python and library primitives\<close>

text \<open>
  \<^verbatim>\<open>str.strip()\<close> removes the characters for which \<^verbatim>\<open>str.isspace\<close> holds from both ends:
  U+0009 to U+000D, U+001C to U+0020, U+0085, U+00A0, U+1680, U+2000 to U+200A, U+2028,
  U+2029, U+202F, U+205F and U+3000. In UTF-8 the first group is one byte each
  (\<open>space1\<close>), U+0085 and U+00A0 are \<^verbatim>\<open>C2 85\<close> and \<^verbatim>\<open>C2 A0\<close> (\<open>space2\<close>), and the others
  are three bytes (\<open>space3\<close>): \<^verbatim>\<open>E1 9A 80\<close>, \<^verbatim>\<open>E2 80 80\<close> to \<^verbatim>\<open>E2 80 8A\<close>, \<^verbatim>\<open>E2 80 A8\<close>,
  \<^verbatim>\<open>E2 80 A9\<close>, \<^verbatim>\<open>E2 80 AF\<close>, \<^verbatim>\<open>E2 81 9F\<close> and \<^verbatim>\<open>E3 80 80\<close>. \<open>rstrip_rev\<close> works on the
  reversed text, so it reads the bytes of a character last byte first.
\<close>

definition space1 :: "char \<Rightarrow> bool" where
  "space1 c = (let n = (of_char c :: nat) in (9 \<le> n \<and> n \<le> 13) \<or> (28 \<le> n \<and> n \<le> 32))"

definition space2 :: "char \<Rightarrow> char \<Rightarrow> bool" where
  "space2 a b =
     (let m = (of_char a :: nat); n = (of_char b :: nat)
      in m = 0xC2 \<and> (n = 0x85 \<or> n = 0xA0))"

definition space3 :: "char \<Rightarrow> char \<Rightarrow> char \<Rightarrow> bool" where
  "space3 a b c =
     (let l = (of_char a :: nat); m = (of_char b :: nat); n = (of_char c :: nat)
      in (l = 0xE1 \<and> m = 0x9A \<and> n = 0x80) \<or>
         (l = 0xE2 \<and> m = 0x80 \<and>
            ((0x80 \<le> n \<and> n \<le> 0x8A) \<or> n = 0xA8 \<or> n = 0xA9 \<or> n = 0xAF)) \<or>
         (l = 0xE2 \<and> m = 0x81 \<and> n = 0x9F) \<or>
         (l = 0xE3 \<and> m = 0x80 \<and> n = 0x80))"

fun lstrip :: "string \<Rightarrow> string" where
  "lstrip (a # b # c # s) =
     (if space1 a then lstrip (b # c # s)
      else if space2 a b then lstrip (c # s)
      else if space3 a b c then lstrip s
      else a # b # c # s)"
| "lstrip [a, b] =
     (if space1 a then lstrip [b] else if space2 a b then [] else [a, b])"
| "lstrip [a] = (if space1 a then [] else [a])"
| "lstrip [] = []"

fun rstrip_rev :: "string \<Rightarrow> string" where
  "rstrip_rev (c # b # a # s) =
     (if space1 c then rstrip_rev (b # a # s)
      else if space2 b c then rstrip_rev (a # s)
      else if space3 a b c then rstrip_rev s
      else c # b # a # s)"
| "rstrip_rev [c, b] =
     (if space1 c then rstrip_rev [b] else if space2 b c then [] else [c, b])"
| "rstrip_rev [c] = (if space1 c then [] else [c])"
| "rstrip_rev [] = []"

definition rstrip :: "string \<Rightarrow> string" where
  "rstrip s = rev (rstrip_rev (rev s))"

definition strip :: "string \<Rightarrow> string" where
  "strip s = rstrip (lstrip s)"

fun join_nl :: "string list \<Rightarrow> string" where
  "join_nl [] = []"
| "join_nl [x] = x"
| "join_nl (x # y # ys) = x @ [CHR 0x0A] @ join_nl (y # ys)"

fun falsy :: "string option \<Rightarrow> bool" where
  "falsy None = True"
| "falsy (Some s) = (s = [])"

text \<open>\<^verbatim>\<open>d.get(k)\<close> and \<^verbatim>\<open>d.get(k, default)\<close>: only a dictionary has the method.\<close>

fun py_get :: "pyval \<Rightarrow> string \<Rightarrow> pyval \<Rightarrow> error + pyval" where
  "py_get (PDict d) k dflt = Inr (case map_of d k of Some v \<Rightarrow> v | None \<Rightarrow> dflt)"
| "py_get _ k dflt = Inl AttributeError"

text \<open>
  What a \<^verbatim>\<open>for\<close> loop iterates over: the elements of a list, the one-character strings
  of a string, the keys of a dictionary; anything else is not iterable.
\<close>

fun py_iter :: "pyval \<Rightarrow> error + pyval list" where
  "py_iter (PList xs) = Inr xs"
| "py_iter (PStr s) = Inr (map (\<lambda>c. PStr [c]) s)"
| "py_iter (PDict d) = Inr (map (\<lambda>(k, v). PStr k) d)"
| "py_iter _ = Inl TypeError"

text \<open>The descendants of a node in document order, as \<^verbatim>\<open>Tag.descendants\<close> yields them.\<close>

fun descendants :: "node \<Rightarrow> node list" where
  "descendants (NavigableString s) = []"
| "descendants (Tag n a cs) = concat (map (\<lambda>c. c # descendants c) cs)"

definition BeautifulSoup :: "node list \<Rightarrow> node" where
  "BeautifulSoup contents = Tag ''[document]'' [] contents"

fun has_name :: "string list \<Rightarrow> node \<Rightarrow> bool" where
  "has_name names (NavigableString s) = False"
| "has_name names (Tag n a cs) = (n \<in> set names)"

definition find_all :: "string list \<Rightarrow> node \<Rightarrow> node list" where
  "find_all names t = filter (has_name names) (descendants t)"

fun has_id :: "string \<Rightarrow> node \<Rightarrow> bool" where
  "has_id i (NavigableString s) = False"
| "has_id i (Tag n a cs) = (map_of a ''id'' = Some i)"

definition select_one_id :: "string \<Rightarrow> node \<Rightarrow> node option" where
  \<comment> \<open>\<^verbatim>\<open>select_one("#i")\<close>: the first element in document order whose id is \<open>i\<close>\<close>
  "select_one_id i t = List.find (has_id i) (descendants t)"

definition find_first :: "string \<Rightarrow> node \<Rightarrow> node option" where
  \<comment> \<open>\<^verbatim>\<open>soup.title\<close> is \<^verbatim>\<open>soup.find("title")\<close>\<close>
  "find_first name t = List.find (has_name [name]) (descendants t)"

text \<open>
  \<^verbatim>\<open>.string\<close>: a text node is its own string; an element has one only when it has
  exactly one child, whose string it is.
\<close>

fun string_of :: "node \<Rightarrow> string option" where
  "string_of (NavigableString s) = Some s"
| "string_of (Tag n a cs) = (case cs of [c] \<Rightarrow> string_of c | _ \<Rightarrow> None)"

fun strings_of :: "node list \<Rightarrow> string list" where
  "strings_of [] = []"
| "strings_of (NavigableString s # ns) = s # strings_of ns"
| "strings_of (Tag n a cs # ns) = strings_of ns"

definition get_text_strip :: "node \<Rightarrow> string" where
  \<comment> \<open>\<^verbatim>\<open>get_text(strip=True)\<close>: every descendant string stripped, the empty ones
      skipped, the rest concatenated with no separator\<close>
  "get_text_strip t =
     concat (filter (\<lambda>s. s \<noteq> []) (map strip (strings_of (descendants t))))"

section \<open>The news search\<close>

text \<open>
  The comprehension of lines 64 to 72: \<open>project_item\<close> is the dictionary display built for
  one item, \<open>project_items\<close> the loop; the first item that is no dictionary raises.
\<close>

definition project_item :: "pyval \<Rightarrow> error + pyval" where
  "project_item item =
     (case py_get item ''title'' PNone of Inl e \<Rightarrow> Inl e | Inr t \<Rightarrow>
     (case py_get item ''description'' PNone of Inl e \<Rightarrow> Inl e | Inr d \<Rightarrow>
     (case py_get item ''link'' PNone of Inl e \<Rightarrow> Inl e | Inr l \<Rightarrow>
     (case py_get item ''pubDate'' PNone of Inl e \<Rightarrow> Inl e | Inr p \<Rightarrow>
        Inr (PDict [(''title'', t), (''desc'', d), (''link'', l), (''pubDate'', p)])))))"

fun project_items :: "pyval list \<Rightarrow> error + pyval list" where
  "project_items [] = Inr []"
| "project_items (item # items) =
     (case project_item item of Inl e \<Rightarrow> Inl e | Inr a \<Rightarrow>
     (case project_items items of Inl e \<Rightarrow> Inl e | Inr rest \<Rightarrow> Inr (a # rest)))"

definition news_of_response :: "string \<Rightarrow> response \<Rightarrow> error + pyval" where
  \<comment> \<open>lines 59 to 78 of \<^verbatim>\<open>fetch_news\<close>, once the response is there\<close>
  "news_of_response keyword res =
     (if status_code res \<noteq> 200 then Inl (HTTPException (status_code res) (res_text res))
      else
       (case json res of None \<Rightarrow> Inl JSONDecodeError | Some data \<Rightarrow>
       (case py_get data ''items'' (PList []) of Inl e \<Rightarrow> Inl e | Inr its \<Rightarrow>
       (case py_iter its of Inl e \<Rightarrow> Inl e | Inr items \<Rightarrow>
       (case project_items items of Inl e \<Rightarrow> Inl e | Inr articles \<Rightarrow>
          Inr (PDict [(''keyword'', PStr keyword),
                      (''count'', PInt (int (length articles))),
                      (''articles'', PList articles)]))))))"

definition search_request :: "string \<Rightarrow> string \<Rightarrow> string \<Rightarrow> int \<Rightarrow> string \<Rightarrow> request" where
  \<comment> \<open>the headers and parameters of lines 45 to 54, sent to the search URL\<close>
  "search_request cid secret keyword limit sort_mode =
     \<lparr>req_url = NAVER_NEWS_URL,
      req_headers = [(''X-Naver-Client-Id'', cid), (''X-Naver-Client-Secret'', secret)],
      req_params = [(''query'', PStr keyword),
                    (''display'', PInt (min limit 100)),
                    (''sort'', PStr sort_mode)]\<rparr>"

definition fetch_news :: "world \<Rightarrow> string \<Rightarrow> int \<Rightarrow> string \<Rightarrow> pyval outcome" where
  "fetch_news w keyword limit sort_mode =
     (case (NAVER_CLIENT_ID w, NAVER_CLIENT_SECRET w) of
        (Some cid, Some secret) \<Rightarrow>
          if falsy (Some cid) \<or> falsy (Some secret)
          then (Inl (HTTPException 500 KEY_MISSING), [])
          else
            let rq = search_request cid secret keyword limit sort_mode
            in (case client_get w rq of
                  None \<Rightarrow> (Inl TransportError, [rq])
                | Some res \<Rightarrow> (news_of_response keyword res, [rq]))
      | _ \<Rightarrow> (Inl (HTTPException 500 KEY_MISSING), []))"

section \<open>The article extractor\<close>

definition page_title :: "node \<Rightarrow> string" where
  \<comment> \<open>line 100\<close>
  "page_title soup =
     (case find_first ''title'' soup of
        None \<Rightarrow> []
      | Some t \<Rightarrow> (case string_of t of
                     None \<Rightarrow> []
                   | Some s \<Rightarrow> if s \<noteq> [] then strip s else []))"

definition primary_content :: "node \<Rightarrow> string" where
  \<comment> \<open>lines 102 to 112\<close>
  "primary_content soup =
     (case select_one_id ''dic_area'' soup of
        None \<Rightarrow> []
      | Some main_area \<Rightarrow>
          join_nl (filter (\<lambda>t. t \<noteq> []) (map get_text_strip (find_all [''p'', ''span''] main_area))))"

definition fallback_content :: "node \<Rightarrow> string" where
  \<comment> \<open>lines 116 to 122\<close>
  "fallback_content soup =
     join_nl (take 30 (filter (\<lambda>t. t \<noteq> []) (map get_text_strip (find_all [''p''] soup))))"

definition page_content :: "node \<Rightarrow> string" where
  \<comment> \<open>lines 102 to 122\<close>
  "page_content soup =
     (let content_text = primary_content soup
      in if content_text = [] then fallback_content soup else content_text)"

definition fetch_article_content :: "world \<Rightarrow> string \<Rightarrow> pyval outcome" where
  "fetch_article_content w url =
     (let rq = \<lparr>req_url = url, req_headers = [], req_params = []\<rparr>
      in case client_get w rq of
           None \<Rightarrow> (Inl TransportError, [rq])
         | Some res \<Rightarrow>
             if status_code res \<noteq> 200
             then (Inl (HTTPException (status_code res) (ARTICLE_REQUEST_FAILED @ res_text res)), [rq])
             else
               let soup = BeautifulSoup (html_parser w (res_text res));
                   title = page_title soup;
                   content_text = page_content soup
               in if title = [] \<and> content_text = []
                  then (Inl (HTTPException 500 NO_CONTENT), [rq])
                  else (Inr (PDict [(''url'', PStr url),
                                    (''title'', PStr title),
                                    (''content'', PStr content_text),
                                    (''origin_link'', PStr url)]), [rq]))"

section \<open>The endpoints\<close>

text \<open>
  A query parameter declared \<^verbatim>\<open>Query(default, ge=lo, le=hi)\<close>: the default when the
  parameter is absent, a validation error (status 422) when it is out of range. The
  handler does not run on a validation error.
\<close>

definition Query_int :: "int \<Rightarrow> int \<Rightarrow> int \<Rightarrow> int option \<Rightarrow> error + int" where
  "Query_int dflt lo hi v =
     (case v of
        None \<Rightarrow> Inr dflt
      | Some x \<Rightarrow> if lo \<le> x \<and> x \<le> hi then Inr x else Inl RequestValidationError)"

definition Query_str :: "string \<Rightarrow> string option \<Rightarrow> string" where
  "Query_str dflt v = (case v of None \<Rightarrow> dflt | Some s \<Rightarrow> s)"

definition Query_required :: "string option \<Rightarrow> error + string" where
  "Query_required v = (case v of None \<Rightarrow> Inl RequestValidationError | Some s \<Rightarrow> Inr s)"

definition get_hot_news :: "world \<Rightarrow> int option \<Rightarrow> string option \<Rightarrow> pyval outcome" where
  "get_hot_news w limit_q sort_q =
     (case Query_int 5 1 50 limit_q of
        Inl e \<Rightarrow> (Inl e, [])
      | Inr limit \<Rightarrow>
          let sort_v = Query_str ''popular'' sort_q;
              naver_sort = (if sort_v \<in> set [''latest'', ''date'', ''time''] then ''date'' else ''sim'')
          in fetch_news w HOT_KEYWORD limit naver_sort)"

definition search_news ::
  "world \<Rightarrow> string option \<Rightarrow> int option \<Rightarrow> string option \<Rightarrow> pyval outcome" where
  "search_news w keyword_q limit_q sort_q =
     (case Query_required keyword_q of
        Inl e \<Rightarrow> (Inl e, [])
      | Inr keyword \<Rightarrow>
          (case Query_int 30 1 100 limit_q of
             Inl e \<Rightarrow> (Inl e, [])
           | Inr limit \<Rightarrow>
               let sort_v = Query_str ''latest'' sort_q;
                   naver_sort = (if sort_v \<in> set [''latest'', ''date'', ''time''] then ''date'' else ''sim'')
               in fetch_news w keyword limit naver_sort))"

definition get_article :: "world \<Rightarrow> string option \<Rightarrow> pyval outcome" where
  "get_article w url_q =
     (case Query_required url_q of
        Inl e \<Rightarrow> (Inl e, [])
      | Inr url \<Rightarrow> fetch_article_content w url)"

text \<open>
  The status of the HTTP reply the framework sends: that of the \<^verbatim>\<open>HTTPException\<close>, 422
  for a validation error, 500 for any other exception, 200 for a returned value.
\<close>

fun reply_status :: "error + pyval \<Rightarrow> int" where
  "reply_status (Inr v) = 200"
| "reply_status (Inl (HTTPException code detail)) = code"
| "reply_status (Inl RequestValidationError) = 422"
| "reply_status (Inl e) = 500"

section \<open>The specification's wording and sample inputs\<close>

text \<open>
  The projection of one upstream item as the specification words it: each of the four
  fields is the item's value under the upstream key, and \<open>PNone\<close> when the key is absent.
\<close>

definition article_of :: "(string \<times> pyval) list \<Rightarrow> pyval" where
  "article_of kv =
     PDict [(''title'', case map_of kv ''title'' of Some v \<Rightarrow> v | None \<Rightarrow> PNone),
            (''desc'', case map_of kv ''description'' of Some v \<Rightarrow> v | None \<Rightarrow> PNone),
            (''link'', case map_of kv ''link'' of Some v \<Rightarrow> v | None \<Rightarrow> PNone),
            (''pubDate'', case map_of kv ''pubDate'' of Some v \<Rightarrow> v | None \<Rightarrow> PNone)]"


subsection \<open>Sample pages, responses and worlds\<close>

definition para :: "string \<Rightarrow> node" where
  "para s = Tag ''p'' [] [NavigableString s]"

definition NBSP :: string where
  \<comment> \<open>U+00A0, what the parser makes of \<^verbatim>\<open>&nbsp;\<close>\<close>
  "NBSP = [CHR 0xC2, CHR 0xA0]"

definition IDEOGRAPHIC_SPACE :: string where
  \<comment> \<open>U+3000\<close>
  "IDEOGRAPHIC_SPACE = [CHR 0xE3, CHR 0x80, CHR 0x80]"

definition five_paragraphs :: "node list" where
  "five_paragraphs =
     [Tag ''html'' []
        [Tag ''head'' [] [Tag ''title'' [] [NavigableString (IDEOGRAPHIC_SPACE @ ''T '')]],
         Tag ''body'' []
           [Tag ''div'' [(''id'', ''dic_area'')]
              [para (NBSP @ ''a'' @ NBSP), para NBSP, Tag ''span'' [] [NavigableString ''b''],
               para '' '', para ''c'']]]]"

definition forty_paragraphs :: "node list" where
  "forty_paragraphs =
     para ('' '' @ NBSP @ [CHR 0x0A]) # replicate 29 (para '' x'') @ [para (''y'' @ IDEOGRAPHIC_SPACE)]
       @ replicate 9 (para ''z'')"

definition page_world :: "int \<Rightarrow> node list \<Rightarrow> world" where
  "page_world code doc =
     \<lparr>NAVER_CLIENT_ID = None, NAVER_CLIENT_SECRET = None,
      client_get = (\<lambda>rq. Some \<lparr>status_code = code, res_text = ''<html>'', json = None\<rparr>),
      html_parser = (\<lambda>s. doc)\<rparr>"

definition search_world :: "response \<Rightarrow> world" where
  "search_world res =
     \<lparr>NAVER_CLIENT_ID = Some ''id'', NAVER_CLIENT_SECRET = Some ''secret'',
      client_get = (\<lambda>rq. Some res), html_parser = (\<lambda>s. [])\<rparr>"

definition two_items :: response where
  "two_items =
     \<lparr>status_code = 200, res_text = ''{...}'',
      json = Some (PDict [(''total'', PInt 2),
                          (''items'', PList [PDict [(''title'', PStr ''A''), (''link'', PStr ''http://a'')],
                                             PDict [(''title'', PStr ''B''), (''description'', PStr ''b''),
                                                    (''link'', PStr ''http://b''), (''pubDate'', PStr ''Mon'')]])])\<rparr>"

definition empty_page :: "node list" where
  "empty_page =
     [Tag ''html'' []
        [Tag ''head'' [] [Tag ''title'' [] [NavigableString '' '']],
         Tag ''body'' [] [para NBSP, Tag ''div'' [] [para ''  '']]]]"

definition failed_response :: response where
  "failed_response = \<lparr>status_code = 429, res_text = ''{\"errorCode\":\"012\"}'', json = None\<rparr>"

definition no_credentials :: world where
  "no_credentials =
     \<lparr>NAVER_CLIENT_ID = None, NAVER_CLIENT_SECRET = Some ''secret'',
      client_get = (\<lambda>rq. Some two_items), html_parser = (\<lambda>s. [])\<rparr>"

section \<open>Lemmas\<close>




lemma fetch_article_content_ok:
  assumes "client_get w \<lparr>req_url = url, req_headers = [], req_params = []\<rparr> = Some res"
    and "status_code res = 200"
    and "soup = BeautifulSoup (html_parser w (res_text res))"
  shows "fst (fetch_article_content w url) =
     (if page_title soup = [] \<and> page_content soup = []
      then Inl (HTTPException 500 NO_CONTENT)
      else Inr (PDict [(''url'', PStr url), (''title'', PStr (page_title soup)),
                       (''content'', PStr (page_content soup)), (''origin_link'', PStr url)]))"
  using assms by (simp add: fetch_article_content_def Let_def)





lemma fetch_news_missing:
  "falsy (NAVER_CLIENT_ID w) \<or> falsy (NAVER_CLIENT_SECRET w) \<Longrightarrow>
     fetch_news w keyword limit sort_mode = (Inl (HTTPException 500 KEY_MISSING), [])"
  by (cases "NAVER_CLIENT_ID w"; cases "NAVER_CLIENT_SECRET w") (auto simp: fetch_news_def)

lemma fetch_news_present:
  assumes "NAVER_CLIENT_ID w = Some cid" "cid \<noteq> []"
    and "NAVER_CLIENT_SECRET w = Some secret" "secret \<noteq> []"
  shows "fetch_news w keyword limit sort_mode =
     (case client_get w (search_request cid secret keyword limit sort_mode) of
        None \<Rightarrow> Inl TransportError
      | Some res \<Rightarrow> news_of_response keyword res,
      [search_request cid secret keyword limit sort_mode])"
  using assms by (simp add: fetch_news_def Let_def split: option.split)

lemma project_item_dict: "project_item (PDict kv) = Inr (article_of kv)"
  by (simp add: project_item_def article_of_def)

lemma project_items_dicts: "project_items (map PDict kvs) = Inr (map article_of kvs)"
  by (induction kvs) (simp_all add: project_item_dict)

lemma project_item_error: "project_item item = Inl e \<Longrightarrow> e = AttributeError"
  by (cases item) (auto simp: project_item_def)

lemma project_items_error: "project_items items = Inl e \<Longrightarrow> e = AttributeError"
  by (induction items) (auto split: sum.splits dest: project_item_error)

lemma py_get_error: "py_get v k d = Inl e \<Longrightarrow> e = AttributeError"
  by (cases v) auto

lemma py_iter_error: "py_iter v = Inl e \<Longrightarrow> e = TypeError"
  by (cases v) auto

lemma news_of_response_not_rejected: "news_of_response keyword res \<noteq> Inl RequestValidationError"
  by (auto simp: news_of_response_def split: option.splits sum.splits
      dest: project_items_error py_get_error py_iter_error)

lemma fetch_news_not_rejected:
  "fst (fetch_news w keyword limit sort_mode) \<noteq> Inl RequestValidationError"
  by (auto simp: fetch_news_def Let_def news_of_response_not_rejected split: option.splits)

section \<open>The claims\<close>







text \<open>
  C5. Once the page is fetched with status 200, the extractor fails with the extraction
  error (status 500, the message of line 125) if and only if the title and the content
  are both empty after the title extraction and both content strategies; when one of
  them is not empty it returns the article detail.
\<close>

theorem extraction_error_iff:
  assumes fetched: "client_get w \<lparr>req_url = url, req_headers = [], req_params = []\<rparr> = Some res"
    and ok: "status_code res = 200"
    and soup: "soup = BeautifulSoup (html_parser w (res_text res))"
  shows "(fst (fetch_article_content w url) = Inl (HTTPException 500 NO_CONTENT)
            \<longleftrightarrow> page_title soup = [] \<and> page_content soup = []) \<and>
         (page_title soup \<noteq> [] \<or> page_content soup \<noteq> [] \<longrightarrow>
            fst (fetch_article_content w url) =
              Inr (PDict [(''url'', PStr url), (''title'', PStr (page_title soup)),
                          (''content'', PStr (page_content soup)), (''origin_link'', PStr url)]))"
  using fetch_article_content_ok [OF fetched ok soup] by auto

theorem extraction_error_iff_witness:
  "fst (fetch_article_content (page_world 200 empty_page) ''http://n/3'') =
     Inl (HTTPException 500 NO_CONTENT) \<and>
   fst (fetch_article_content (page_world 200 five_paragraphs) ''http://n/1'') =
     Inr (PDict [(''url'', PStr ''http://n/1''), (''title'', PStr ''T''),
                 (''content'', PStr (''a'' @ [CHR 0x0A] @ ''b'' @ [CHR 0x0A] @ ''c'')),
                 (''origin_link'', PStr ''http://n/1'')]) \<and>
   fst (fetch_article_content (page_world 200 forty_paragraphs) ''http://n/2'') =
     Inr (PDict [(''url'', PStr ''http://n/2''), (''title'', PStr []),
                 (''content'', PStr (join_nl (replicate 29 ''x'' @ [''y'']))),
                 (''origin_link'', PStr ''http://n/2'')])"
proof -
  let ?res = "\<lparr>status_code = 200, res_text = ''<html>'', json = None\<rparr>"
  have e1: "client_get (page_world 200 empty_page)
              \<lparr>req_url = ''http://n/3'', req_headers = [], req_params = []\<rparr> = Some ?res"
    by (simp add: page_world_def)
  have e3: "BeautifulSoup empty_page =
              BeautifulSoup (html_parser (page_world 200 empty_page) (res_text ?res))"
    by (simp add: page_world_def)
  have e4: "page_title (BeautifulSoup empty_page) = [] \<and> page_content (BeautifulSoup empty_page) = []"
    by code_simp
  have f1: "client_get (page_world 200 five_paragraphs)
              \<lparr>req_url = ''http://n/1'', req_headers = [], req_params = []\<rparr> = Some ?res"
    by (simp add: page_world_def)
  have f3: "BeautifulSoup five_paragraphs =
              BeautifulSoup (html_parser (page_world 200 five_paragraphs) (res_text ?res))"
    by (simp add: page_world_def)
  have f4: "page_title (BeautifulSoup five_paragraphs) = ''T'' \<and>
            page_content (BeautifulSoup five_paragraphs) = ''a'' @ [CHR 0x0A] @ ''b'' @ [CHR 0x0A] @ ''c''"
    by code_simp
  have g1: "client_get (page_world 200 forty_paragraphs)
              \<lparr>req_url = ''http://n/2'', req_headers = [], req_params = []\<rparr> = Some ?res"
    by (simp add: page_world_def)
  have g3: "BeautifulSoup forty_paragraphs =
              BeautifulSoup (html_parser (page_world 200 forty_paragraphs) (res_text ?res))"
    by (simp add: page_world_def)
  have g4: "page_title (BeautifulSoup forty_paragraphs) = [] \<and>
            primary_content (BeautifulSoup forty_paragraphs) = [] \<and>
            page_content (BeautifulSoup forty_paragraphs) = join_nl (replicate 29 ''x'' @ [''y''])"
    by code_simp
  have g5: "join_nl (replicate 29 ''x'' @ [''y'']) \<noteq> []" by code_simp
  have ok: "status_code ?res = 200" by simp
  from extraction_error_iff [OF e1 ok e3] e4
  have one: "fst (fetch_article_content (page_world 200 empty_page) ''http://n/3'') =
     Inl (HTTPException 500 NO_CONTENT)" by simp
  from extraction_error_iff [OF f1 ok f3] f4
  have two: "fst (fetch_article_content (page_world 200 five_paragraphs) ''http://n/1'') =
     Inr (PDict [(''url'', PStr ''http://n/1''), (''title'', PStr ''T''),
                 (''content'', PStr (''a'' @ [CHR 0x0A] @ ''b'' @ [CHR 0x0A] @ ''c'')),
                 (''origin_link'', PStr ''http://n/1'')])" by simp
  from extraction_error_iff [OF g1 ok g3] g4 g5
  have three: "fst (fetch_article_content (page_world 200 forty_paragraphs) ''http://n/2'') =
     Inr (PDict [(''url'', PStr ''http://n/2''), (''title'', PStr []),
                 (''content'', PStr (join_nl (replicate 29 ''x'' @ [''y'']))),
                 (''origin_link'', PStr ''http://n/2'')])" by simp
  from one two three show ?thesis by simp
qed

text \<open>
  C10. The article operation does not read the credentials: for every url and every
  world, replacing the two credentials by any others (present or absent) leaves the
  result and the requests issued unchanged.
\<close>

theorem article_ignores_credentials:
  "fetch_article_content (w\<lparr>NAVER_CLIENT_ID := cid, NAVER_CLIENT_SECRET := secret\<rparr>) url =
     fetch_article_content w url \<and>
   get_article (w\<lparr>NAVER_CLIENT_ID := cid, NAVER_CLIENT_SECRET := secret\<rparr>) url_q =
     get_article w url_q"
proof -
  have same: "fetch_article_content (w\<lparr>NAVER_CLIENT_ID := cid, NAVER_CLIENT_SECRET := secret\<rparr>) u =
     fetch_article_content w u" for u
    by (simp add: fetch_article_content_def Let_def split: option.split)
  then show ?thesis
    by (simp add: get_article_def split: sum.split)
qed

text \<open>
  C3. The sort mapping of both news endpoints is total. With the credentials present and
  the limit accepted, every sort string \<open>s\<close> leads to exactly one upstream request, whose
  \<^verbatim>\<open>sort\<close> parameter is \<^verbatim>\<open>date\<close> when \<open>s\<close> is \<^verbatim>\<open>latest\<close>, \<^verbatim>\<open>date\<close> or \<^verbatim>\<open>time\<close> and \<^verbatim>\<open>sim\<close> for
  every other string; no sort string is rejected.
\<close>

theorem sort_mapping_total:
  assumes cid: "NAVER_CLIENT_ID w = Some cid" "cid \<noteq> []"
    and secret: "NAVER_CLIENT_SECRET w = Some secret" "secret \<noteq> []"
    and hot_limit: "Query_int 5 1 50 hot_limit_q = Inr hot_limit"
    and limit: "Query_int 30 1 100 limit_q = Inr limit"
    and mode: "naver_sort = (if s \<in> {''latest'', ''date'', ''time''} then ''date'' else ''sim'')"
  shows "snd (get_hot_news w hot_limit_q (Some s)) =
           [search_request cid secret HOT_KEYWORD hot_limit naver_sort] \<and>
         snd (search_news w (Some keyword) limit_q (Some s)) =
           [search_request cid secret keyword limit naver_sort] \<and>
         map_of (req_params (search_request cid secret keyword limit naver_sort)) ''sort'' =
           Some (PStr naver_sort) \<and>
         fst (get_hot_news w hot_limit_q (Some s)) \<noteq> Inl RequestValidationError \<and>
         fst (search_news w (Some keyword) limit_q (Some s)) \<noteq> Inl RequestValidationError"
proof -
  have hot: "get_hot_news w hot_limit_q (Some s) = fetch_news w HOT_KEYWORD hot_limit naver_sort"
    using hot_limit mode by (simp add: get_hot_news_def Query_str_def Let_def)
  have news: "search_news w (Some keyword) limit_q (Some s) = fetch_news w keyword limit naver_sort"
    using limit mode by (simp add: search_news_def Query_required_def Query_str_def Let_def)
  have issued: "snd (fetch_news w k l naver_sort) = [search_request cid secret k l naver_sort]" for k l
    by (simp add: fetch_news_present [OF cid secret])
  have param: "map_of (req_params (search_request cid secret keyword limit naver_sort)) ''sort'' =
           Some (PStr naver_sort)"
    by (simp add: search_request_def)
  show ?thesis
    unfolding hot news using issued param fetch_news_not_rejected by simp
qed

theorem sort_mapping_total_witness:
  "snd (get_hot_news (search_world two_items) None (Some ''time'')) =
     [search_request ''id'' ''secret'' HOT_KEYWORD 5 ''date''] \<and>
   snd (search_news (search_world two_items) (Some ''AI'') None (Some ''newest'')) =
     [search_request ''id'' ''secret'' ''AI'' 30 ''sim'']"
proof -
  have c: "NAVER_CLIENT_ID (search_world two_items) = Some ''id''" "''id'' \<noteq> []"
    and s: "NAVER_CLIENT_SECRET (search_world two_items) = Some ''secret''" "''secret'' \<noteq> []"
    by (simp_all add: search_world_def)
  have h: "Query_int 5 1 50 None = Inr 5" and l: "Query_int 30 1 100 None = Inr 30"
    by (simp_all add: Query_int_def)
  have m1: "''date'' = (if ''time'' \<in> {''latest'', ''date'', ''time''} then ''date'' else ''sim'')"
    by simp
  have m2: "''sim'' = (if ''newest'' \<in> {''latest'', ''date'', ''time''} then ''date'' else ''sim'')"
    by simp
  from sort_mapping_total [OF c s h l m1, of "''AI''"] sort_mapping_total [OF c s h l m2, of "''AI''"]
  show ?thesis by simp
qed


text \<open>
  C4, as stated, fails. Limit 500 on \<^verbatim>\<open>/news\<close> is refused by the validation of the query
  parameter (\<^verbatim>\<open>le=100\<close>): the reply is the validation error and no upstream request is
  issued, so none carries a display of 100.
\<close>

theorem limit_500_rejected_counterexample:
  "search_news (search_world two_items) (Some ''AI'') (Some 500) None =
     (Inl RequestValidationError, [])"
  by (simp add: search_news_def Query_required_def Query_int_def)

text \<open>
  C4, amended. \<^verbatim>\<open>fetch_news\<close> sends \<^verbatim>\<open>display = min(limit, 100)\<close>, so a limit above 100
  handed to it is clamped to 100. The endpoints refuse a limit above their maximum (100 on
  \<^verbatim>\<open>/news\<close>, 50 on \<^verbatim>\<open>/hot-news\<close>) with a validation error and issue no upstream request;
  a limit they accept is sent upstream unchanged.
\<close>

theorem display_clamped_limit_validated:
  assumes cid: "NAVER_CLIENT_ID w = Some cid" "cid \<noteq> []"
    and secret: "NAVER_CLIENT_SECRET w = Some secret" "secret \<noteq> []"
  shows "map (\<lambda>rq. map_of (req_params rq) ''display'') (snd (fetch_news w keyword limit sort_mode)) =
           [Some (PInt (min limit 100))] \<and>
         (100 < limit \<longrightarrow>
            map (\<lambda>rq. map_of (req_params rq) ''display'') (snd (fetch_news w keyword limit sort_mode)) =
              [Some (PInt 100)]) \<and>
         (100 < limit \<longrightarrow>
            search_news w keyword_q (Some limit) sort_q = (Inl RequestValidationError, [])) \<and>
         (50 < limit \<longrightarrow>
            get_hot_news w (Some limit) sort_q = (Inl RequestValidationError, [])) \<and>
         (1 \<le> limit \<and> limit \<le> 100 \<longrightarrow>
            map (\<lambda>rq. map_of (req_params rq) ''display'')
                (snd (search_news w (Some keyword) (Some limit) sort_q)) = [Some (PInt limit)]) \<and>
         (1 \<le> limit \<and> limit \<le> 50 \<longrightarrow>
            map (\<lambda>rq. map_of (req_params rq) ''display'')
                (snd (get_hot_news w (Some limit) sort_q)) = [Some (PInt limit)])"
proof -
  have display: "map (\<lambda>rq. map_of (req_params rq) ''display'') (snd (fetch_news w k l m)) =
           [Some (PInt (min l 100))]" for k l m
    by (simp add: fetch_news_present [OF cid secret] search_request_def)
  have news_rejected: "search_news w keyword_q (Some limit) sort_q = (Inl RequestValidationError, [])"
    if "100 < limit"
    using that by (simp add: search_news_def Query_required_def Query_int_def split: option.split)
  have hot_rejected: "get_hot_news w (Some limit) sort_q = (Inl RequestValidationError, [])"
    if "50 < limit"
    using that by (simp add: get_hot_news_def Query_int_def)
  have news_ok: "map (\<lambda>rq. map_of (req_params rq) ''display'')
                (snd (search_news w (Some keyword) (Some limit) sort_q)) = [Some (PInt limit)]"
    if "1 \<le> limit \<and> limit \<le> 100"
    using that by (simp add: search_news_def Query_required_def Query_int_def Let_def display)
  have hot_ok: "map (\<lambda>rq. map_of (req_params rq) ''display'')
                (snd (get_hot_news w (Some limit) sort_q)) = [Some (PInt limit)]"
    if "1 \<le> limit \<and> limit \<le> 50"
    using that by (simp add: get_hot_news_def Query_int_def Let_def display)
  from display news_rejected hot_rejected news_ok hot_ok show ?thesis by simp
qed

theorem display_clamped_limit_validated_witness:
  "map (\<lambda>rq. map_of (req_params rq) ''display'')
       (snd (fetch_news (search_world two_items) ''AI'' 500 ''date'')) = [Some (PInt 100)] \<and>
   search_news (search_world two_items) (Some ''AI'') (Some 500) None =
     (Inl RequestValidationError, []) \<and>
   get_hot_news (search_world two_items) (Some 500) None = (Inl RequestValidationError, [])"
proof -
  have c: "NAVER_CLIENT_ID (search_world two_items) = Some ''id''" "''id'' \<noteq> []"
    and s: "NAVER_CLIENT_SECRET (search_world two_items) = Some ''secret''" "''secret'' \<noteq> []"
    by (simp_all add: search_world_def)
  from display_clamped_limit_validated [OF c s, of "''AI''" 500 "''date''" "Some ''AI''" None]
  show ?thesis by simp
qed

text \<open>
  C6. When either credential is absent (unset or empty), \<^verbatim>\<open>fetch_news\<close> fails with the
  configuration error (status 500) and issues no request; so do both search-backed
  endpoints: they issue no request, and fail with the configuration error whenever their
  query parameters are accepted (with the validation error otherwise).
\<close>

theorem missing_credentials_no_request:
  assumes "falsy (NAVER_CLIENT_ID w) \<or> falsy (NAVER_CLIENT_SECRET w)"
  shows "fetch_news w keyword limit sort_mode = (Inl (HTTPException 500 KEY_MISSING), []) \<and>
         get_hot_news w limit_q sort_q =
           (case Query_int 5 1 50 limit_q of
              Inl e \<Rightarrow> Inl e
            | Inr l \<Rightarrow> Inl (HTTPException 500 KEY_MISSING), []) \<and>
         search_news w keyword_q limit_q sort_q =
           (case Query_required keyword_q of
              Inl e \<Rightarrow> Inl e
            | Inr k \<Rightarrow> (case Query_int 30 1 100 limit_q of
                          Inl e \<Rightarrow> Inl e
                        | Inr l \<Rightarrow> Inl (HTTPException 500 KEY_MISSING)), [])"
  by (simp add: fetch_news_missing [OF assms] get_hot_news_def search_news_def Let_def
      split: sum.split)

theorem missing_credentials_no_request_witness:
  "fetch_news no_credentials ''AI'' 10 ''date'' = (Inl (HTTPException 500 KEY_MISSING), []) \<and>
   get_hot_news no_credentials None None = (Inl (HTTPException 500 KEY_MISSING), []) \<and>
   search_news no_credentials (Some ''AI'') (Some 10) (Some ''latest'') =
     (Inl (HTTPException 500 KEY_MISSING), [])"
proof -
  have h: "falsy (NAVER_CLIENT_ID no_credentials) \<or> falsy (NAVER_CLIENT_SECRET no_credentials)"
    by (simp add: no_credentials_def)
  from missing_credentials_no_request [OF h, of "''AI''" 10 "''date''" None None "Some ''AI''"]
    missing_credentials_no_request [OF h, of "''AI''" 10 "''date''" "Some 10" "Some ''latest''" "Some ''AI''"]
  show ?thesis by (simp add: Query_int_def Query_required_def)
qed

text \<open>
  C7. For a successful upstream response (status 200, a JSON object whose \<^verbatim>\<open>items\<close> is
  a list of N objects, or absent with N = 0), the adapter returns \<^verbatim>\<open>count\<close> = N and as
  \<^verbatim>\<open>articles\<close> the projections of the items in upstream order. Projecting an object never
  fails: a missing field becomes \<open>PNone\<close>.
\<close>

theorem search_result_projects_items:
  assumes cid: "NAVER_CLIENT_ID w = Some cid" "cid \<noteq> []"
    and secret: "NAVER_CLIENT_SECRET w = Some secret" "secret \<noteq> []"
    and answered: "client_get w (search_request cid secret keyword limit sort_mode) = Some res"
    and ok: "status_code res = 200"
    and body: "json res = Some (PDict d)"
    and items: "(case map_of d ''items'' of Some v \<Rightarrow> v | None \<Rightarrow> PList []) = PList (map PDict kvs)"
  shows "fst (fetch_news w keyword limit sort_mode) =
           Inr (PDict [(''keyword'', PStr keyword),
                       (''count'', PInt (int (length kvs))),
                       (''articles'', PList (map article_of kvs))]) \<and>
         (\<forall>kv. project_item (PDict kv) = Inr (article_of kv)) \<and>
         (\<forall>kv. map_of kv ''title'' = None \<and> map_of kv ''description'' = None \<and>
               map_of kv ''link'' = None \<and> map_of kv ''pubDate'' = None \<longrightarrow>
               article_of kv = PDict [(''title'', PNone), (''desc'', PNone),
                                      (''link'', PNone), (''pubDate'', PNone)])"
proof -
  have "news_of_response keyword res =
           Inr (PDict [(''keyword'', PStr keyword),
                       (''count'', PInt (int (length kvs))),
                       (''articles'', PList (map article_of kvs))])"
    using ok body items by (simp add: news_of_response_def project_items_dicts)
  then show ?thesis
    using answered by (simp add: fetch_news_present [OF cid secret] project_item_dict article_of_def)
qed

theorem search_result_projects_items_witness:
  "fst (fetch_news (search_world two_items) ''AI'' 30 ''date'') =
     Inr (PDict [(''keyword'', PStr ''AI''), (''count'', PInt 2),
                 (''articles'',
                  PList [PDict [(''title'', PStr ''A''), (''desc'', PNone),
                                (''link'', PStr ''http://a''), (''pubDate'', PNone)],
                         PDict [(''title'', PStr ''B''), (''desc'', PStr ''b''),
                                (''link'', PStr ''http://b''), (''pubDate'', PStr ''Mon'')]])])"
proof -
  let ?w = "search_world two_items"
  let ?d = "[(''total'', PInt 2),
             (''items'', PList [PDict [(''title'', PStr ''A''), (''link'', PStr ''http://a'')],
                                PDict [(''title'', PStr ''B''), (''description'', PStr ''b''),
                                       (''link'', PStr ''http://b''), (''pubDate'', PStr ''Mon'')]])]"
  let ?kvs = "[[(''title'', PStr ''A''), (''link'', PStr ''http://a'')],
               [(''title'', PStr ''B''), (''description'', PStr ''b''),
                (''link'', PStr ''http://b''), (''pubDate'', PStr ''Mon'')]]"
  have c: "NAVER_CLIENT_ID ?w = Some ''id''" "''id'' \<noteq> []"
    and s: "NAVER_CLIENT_SECRET ?w = Some ''secret''" "''secret'' \<noteq> []"
    by (simp_all add: search_world_def)
  have a: "client_get ?w (search_request ''id'' ''secret'' ''AI'' 30 ''date'') = Some two_items"
    by (simp add: search_world_def)
  have ok: "status_code two_items = 200" by (simp add: two_items_def)
  have b: "json two_items = Some (PDict ?d)" by (simp add: two_items_def)
  have i: "(case map_of ?d ''items'' of Some v \<Rightarrow> v | None \<Rightarrow> PList []) = PList (map PDict ?kvs)"
    by simp
  from search_result_projects_items [OF c s a ok b i] show ?thesis
    by (simp add: article_of_def)
qed

text \<open>
  C8. When an outbound call returns a status other than 200 (so for every non-success
  status), the operation fails with an \<^verbatim>\<open>HTTPException\<close> carrying that status and the raw
  body (for the article fetch, after the fixed prefix of line 94), and the status of the
  HTTP reply is the upstream status: for \<^verbatim>\<open>fetch_news\<close> and \<^verbatim>\<open>fetch_article_content\<close>, and
  for the replies of \<^verbatim>\<open>/news\<close>, \<^verbatim>\<open>/hot-news\<close> and \<^verbatim>\<open>/article\<close> whose parameters are accepted.
\<close>

theorem upstream_failure_status_mirrored:
  assumes failed: "status_code res \<noteq> 200"
  shows "(NAVER_CLIENT_ID w = Some cid \<and> cid \<noteq> [] \<and>
          NAVER_CLIENT_SECRET w = Some secret \<and> secret \<noteq> [] \<and>
          client_get w (search_request cid secret keyword limit sort_mode) = Some res \<longrightarrow>
            fst (fetch_news w keyword limit sort_mode) =
              Inl (HTTPException (status_code res) (res_text res)) \<and>
            reply_status (fst (fetch_news w keyword limit sort_mode)) = status_code res) \<and>
         (client_get w \<lparr>req_url = url, req_headers = [], req_params = []\<rparr> = Some res \<longrightarrow>
            fst (fetch_article_content w url) =
              Inl (HTTPException (status_code res) (ARTICLE_REQUEST_FAILED @ res_text res)) \<and>
            reply_status (fst (fetch_article_content w url)) = status_code res \<and>
            reply_status (fst (get_article w (Some url))) = status_code res) \<and>
         (NAVER_CLIENT_ID w = Some cid \<and> cid \<noteq> [] \<and>
          NAVER_CLIENT_SECRET w = Some secret \<and> secret \<noteq> [] \<and>
          Query_int 30 1 100 limit_q = Inr news_limit \<and>
          client_get w (search_request cid secret keyword news_limit
            (if Query_str ''latest'' sort_q \<in> {''latest'', ''date'', ''time''}
             then ''date'' else ''sim'')) = Some res \<longrightarrow>
            fst (search_news w (Some keyword) limit_q sort_q) =
              Inl (HTTPException (status_code res) (res_text res)) \<and>
            reply_status (fst (search_news w (Some keyword) limit_q sort_q)) = status_code res) \<and>
         (NAVER_CLIENT_ID w = Some cid \<and> cid \<noteq> [] \<and>
          NAVER_CLIENT_SECRET w = Some secret \<and> secret \<noteq> [] \<and>
          Query_int 5 1 50 hot_limit_q = Inr hot_limit \<and>
          client_get w (search_request cid secret HOT_KEYWORD hot_limit
            (if Query_str ''popular'' hot_sort_q \<in> {''latest'', ''date'', ''time''}
             then ''date'' else ''sim'')) = Some res \<longrightarrow>
            fst (get_hot_news w hot_limit_q hot_sort_q) =
              Inl (HTTPException (status_code res) (res_text res)) \<and>
            reply_status (fst (get_hot_news w hot_limit_q hot_sort_q)) = status_code res)"
proof -
  have news: "fst (fetch_news w k l m) = Inl (HTTPException (status_code res) (res_text res))"
    if "NAVER_CLIENT_ID w = Some cid" "cid \<noteq> []" "NAVER_CLIENT_SECRET w = Some secret"
      "secret \<noteq> []" "client_get w (search_request cid secret k l m) = Some res" for k l m
    using that failed by (simp add: fetch_news_present news_of_response_def)
  have article: "fst (fetch_article_content w url) =
              Inl (HTTPException (status_code res) (ARTICLE_REQUEST_FAILED @ res_text res))"
    if "client_get w \<lparr>req_url = url, req_headers = [], req_params = []\<rparr> = Some res"
    using that failed by (simp add: fetch_article_content_def Let_def)
  have endpoint: "get_article w (Some url) = fetch_article_content w url"
    by (simp add: get_article_def Query_required_def)
  have search: "search_news w (Some keyword) limit_q sort_q =
      fetch_news w keyword news_limit
        (if Query_str ''latest'' sort_q \<in> {''latest'', ''date'', ''time''} then ''date'' else ''sim'')"
    if "Query_int 30 1 100 limit_q = Inr news_limit"
    using that by (simp add: search_news_def Query_required_def Let_def)
  have hot: "get_hot_news w hot_limit_q hot_sort_q =
      fetch_news w HOT_KEYWORD hot_limit
        (if Query_str ''popular'' hot_sort_q \<in> {''latest'', ''date'', ''time''} then ''date'' else ''sim'')"
    if "Query_int 5 1 50 hot_limit_q = Inr hot_limit"
    using that by (simp add: get_hot_news_def Let_def)
  have c1: "NAVER_CLIENT_ID w = Some cid \<and> cid \<noteq> [] \<and>
          NAVER_CLIENT_SECRET w = Some secret \<and> secret \<noteq> [] \<and>
          client_get w (search_request cid secret keyword limit sort_mode) = Some res \<longrightarrow>
            fst (fetch_news w keyword limit sort_mode) =
              Inl (HTTPException (status_code res) (res_text res)) \<and>
            reply_status (fst (fetch_news w keyword limit sort_mode)) = status_code res"
    using news by simp
  have c2: "client_get w \<lparr>req_url = url, req_headers = [], req_params = []\<rparr> = Some res \<longrightarrow>
            fst (fetch_article_content w url) =
              Inl (HTTPException (status_code res) (ARTICLE_REQUEST_FAILED @ res_text res)) \<and>
            reply_status (fst (fetch_article_content w url)) = status_code res \<and>
            reply_status (fst (get_article w (Some url))) = status_code res"
    using article by (simp add: endpoint)
  have c3: "NAVER_CLIENT_ID w = Some cid \<and> cid \<noteq> [] \<and>
          NAVER_CLIENT_SECRET w = Some secret \<and> secret \<noteq> [] \<and>
          Query_int 30 1 100 limit_q = Inr news_limit \<and>
          client_get w (search_request cid secret keyword news_limit
            (if Query_str ''latest'' sort_q \<in> {''latest'', ''date'', ''time''}
             then ''date'' else ''sim'')) = Some res \<longrightarrow>
            fst (search_news w (Some keyword) limit_q sort_q) =
              Inl (HTTPException (status_code res) (res_text res)) \<and>
            reply_status (fst (search_news w (Some keyword) limit_q sort_q)) = status_code res"
    using news search by simp
  have c4: "NAVER_CLIENT_ID w = Some cid \<and> cid \<noteq> [] \<and>
          NAVER_CLIENT_SECRET w = Some secret \<and> secret \<noteq> [] \<and>
          Query_int 5 1 50 hot_limit_q = Inr hot_limit \<and>
          client_get w (search_request cid secret HOT_KEYWORD hot_limit
            (if Query_str ''popular'' hot_sort_q \<in> {''latest'', ''date'', ''time''}
             then ''date'' else ''sim'')) = Some res \<longrightarrow>
            fst (get_hot_news w hot_limit_q hot_sort_q) =
              Inl (HTTPException (status_code res) (res_text res)) \<and>
            reply_status (fst (get_hot_news w hot_limit_q hot_sort_q)) = status_code res"
    using news hot by simp
  from c1 c2 c3 c4 show ?thesis by blast
qed

theorem upstream_failure_status_mirrored_witness:
  "fst (fetch_news (search_world failed_response) ''AI'' 30 ''date'') =
     Inl (HTTPException 429 ''{\"errorCode\":\"012\"}'') \<and>
   reply_status (fst (fetch_news (search_world failed_response) ''AI'' 30 ''date'')) = 429 \<and>
   fst (fetch_article_content (page_world 404 []) ''http://n/4'') =
     Inl (HTTPException 404 (ARTICLE_REQUEST_FAILED @ ''<html>'')) \<and>
   reply_status (fst (get_article (page_world 404 []) (Some ''http://n/4''))) = 404 \<and>
   fst (search_news (search_world failed_response) (Some ''AI'') (Some 30) (Some ''date'')) =
     Inl (HTTPException 429 ''{\"errorCode\":\"012\"}'') \<and>
   reply_status (fst (search_news (search_world failed_response) (Some ''AI'') (Some 30) (Some ''date''))) = 429 \<and>
   reply_status (fst (get_hot_news (search_world failed_response) None None)) = 429"
proof -
  let ?page = "\<lparr>status_code = 404, res_text = ''<html>'', json = None\<rparr>"
  let ?w = "search_world failed_response"
  have f: "status_code failed_response \<noteq> 200" by (simp add: failed_response_def)
  have p: "status_code ?page \<noteq> 200" by simp
  have c: "NAVER_CLIENT_ID ?w = Some ''id'' \<and> ''id'' \<noteq> [] \<and>
          NAVER_CLIENT_SECRET ?w = Some ''secret'' \<and> ''secret'' \<noteq> []"
    by (simp add: search_world_def)
  have a: "client_get ?w rq = Some failed_response" for rq
    by (simp add: search_world_def)
  have q: "Query_int 30 1 100 (Some 30) = Inr 30" "Query_int 5 1 50 None = Inr 5"
    by (simp_all add: Query_int_def)
  have g: "client_get (page_world 404 [])
             \<lparr>req_url = ''http://n/4'', req_headers = [], req_params = []\<rparr> = Some ?page"
    by (simp add: page_world_def)
  have s: "status_code failed_response = 429" "res_text failed_response = ''{\"errorCode\":\"012\"}''"
    by (simp_all add: failed_response_def)
  note search = upstream_failure_status_mirrored [OF f, of ?w "''id''" "''secret''" "''AI''" 30 "''date''"
      "''x''" "Some 30" 30 "Some ''date''" None 5 None]
  note page = upstream_failure_status_mirrored [OF p, of "page_world 404 []" "''id''" "''secret''" "''AI''" 30
      "''date''" "''http://n/4''" "Some 30" 30 "Some ''date''" None 5 None]
  from search c a q s have
    "fst (fetch_news ?w ''AI'' 30 ''date'') = Inl (HTTPException 429 ''{\"errorCode\":\"012\"}'')"
    "reply_status (fst (fetch_news ?w ''AI'' 30 ''date'')) = 429"
    "fst (search_news ?w (Some ''AI'') (Some 30) (Some ''date'')) =
       Inl (HTTPException 429 ''{\"errorCode\":\"012\"}'')"
    "reply_status (fst (search_news ?w (Some ''AI'') (Some 30) (Some ''date''))) = 429"
    "reply_status (fst (get_hot_news ?w None None)) = 429"
    by simp_all
  moreover from page g have
    "fst (fetch_article_content (page_world 404 []) ''http://n/4'') =
       Inl (HTTPException 404 (ARTICLE_REQUEST_FAILED @ ''<html>''))"
    "reply_status (fst (get_article (page_world 404 []) (Some ''http://n/4''))) = 404"
    by simp_all
  ultimately show ?thesis by simp
qed

end
